theory Spec2Isabelle
  imports Complex_Main
begin

section \<open>JavaScript values\<close>

text \<open>
  A JavaScript number is an IEEE double. Finite values are kept as reals (rounding and
  overflow are not modelled, and there is one zero); the special values the code can
  produce by dividing by zero are kept apart, so that \<open>0 / 0\<close> is \<open>NaN\<close> and
  not HOL's \<open>0\<close>.
\<close>

datatype number = Fin real | NaN | PosInf | NegInf

fun num_add :: "number \<Rightarrow> number \<Rightarrow> number" where
  "num_add (Fin x) (Fin y) = Fin (x + y)"
| "num_add NaN _ = NaN"
| "num_add _ NaN = NaN"
| "num_add PosInf NegInf = NaN"
| "num_add NegInf PosInf = NaN"
| "num_add PosInf _ = PosInf"
| "num_add _ PosInf = PosInf"
| "num_add NegInf _ = NegInf"
| "num_add _ NegInf = NegInf"

definition inf_of_sign :: "bool \<Rightarrow> number" where
  "inf_of_sign positive = (if positive then PosInf else NegInf)"

fun num_mul :: "number \<Rightarrow> number \<Rightarrow> number" where
  "num_mul (Fin x) (Fin y) = Fin (x * y)"
| "num_mul NaN _ = NaN"
| "num_mul _ NaN = NaN"
| "num_mul PosInf (Fin y) = (if y = 0 then NaN else inf_of_sign (0 < y))"
| "num_mul NegInf (Fin y) = (if y = 0 then NaN else inf_of_sign (y < 0))"
| "num_mul (Fin x) PosInf = (if x = 0 then NaN else inf_of_sign (0 < x))"
| "num_mul (Fin x) NegInf = (if x = 0 then NaN else inf_of_sign (x < 0))"
| "num_mul PosInf PosInf = PosInf"
| "num_mul NegInf NegInf = PosInf"
| "num_mul PosInf NegInf = NegInf"
| "num_mul NegInf PosInf = NegInf"

fun num_div :: "number \<Rightarrow> number \<Rightarrow> number" where
  "num_div (Fin x) (Fin y) =
     (if y = 0 then (if x = 0 then NaN else inf_of_sign (0 < x)) else Fin (x / y))"
| "num_div NaN _ = NaN"
| "num_div _ NaN = NaN"
| "num_div (Fin x) _ = Fin 0"
| "num_div PosInf (Fin y) = inf_of_sign (0 \<le> y)"
| "num_div NegInf (Fin y) = inf_of_sign (y < 0)"
| "num_div PosInf PosInf = NaN"
| "num_div PosInf NegInf = NaN"
| "num_div NegInf PosInf = NaN"
| "num_div NegInf NegInf = NaN"

fun num_sqrt :: "number \<Rightarrow> number" where
  "num_sqrt (Fin x) = (if x < 0 then NaN else Fin (sqrt x))"
| "num_sqrt PosInf = PosInf"
| "num_sqrt _ = NaN"

fun num_sin :: "number \<Rightarrow> number" where
  "num_sin (Fin x) = Fin (sin x)"
| "num_sin _ = NaN"

fun is_finite :: "number \<Rightarrow> bool" where
  "is_finite (Fin x) = True"
| "is_finite _ = False"

text \<open>What the code throws: the constructor of the JavaScript error and its message.\<close>

datatype error = Error string | TypeError string | SqliteError string

fun message :: "error \<Rightarrow> string" where
  "message (Error m) = m"
| "message (TypeError m) = m"
| "message (SqliteError m) = m"

section \<open>MockEmbeddingsService\<close>

definition dimension :: nat where
  "dimension = 384"

text \<open>\<open>ToInt32\<close>: what \<open><<\<close> and \<open>&\<close> make of their operands and of their result.\<close>

definition toInt32 :: "int \<Rightarrow> int" where
  "toInt32 x = (x + 2147483648) mod 4294967296 - 2147483648"

text \<open>
  \<open>simpleHash\<close>: the loop body is \<open>hash = ((hash << 5) - hash) + char; hash = hash & hash\<close>,
  over the code units of the string.
\<close>

definition hash_step :: "int \<Rightarrow> char \<Rightarrow> int" where
  "hash_step hash c = toInt32 ((toInt32 (toInt32 hash * 32) - hash) + of_char c)"

definition simpleHash :: "string \<Rightarrow> number" where
  "simpleHash str = Fin (real_of_int \<bar>foldl hash_step 0 str\<bar> / 2147483647)"

text \<open>\<open>Math.sqrt(embedding.reduce((sum, val) => sum + val * val, 0))\<close>\<close>

definition sum_squares :: "number list \<Rightarrow> number" where
  "sum_squares v = foldl (\<lambda>sum val. num_add sum (num_mul val val)) (Fin 0) v"

definition magnitude :: "number list \<Rightarrow> number" where
  "magnitude v = num_sqrt (sum_squares v)"

definition generateMockEmbedding :: "string \<Rightarrow> number list" where
  "generateMockEmbedding text =
     (let hash = simpleHash text;
          embedding = map (\<lambda>i. num_mul (num_sin (num_mul hash (Fin (real (i + 1))))) (Fin 0.5))
                        [0..<dimension];
          m = magnitude embedding
      in map (\<lambda>val. num_div val m) embedding)"

definition generateEmbeddings :: "string list \<Rightarrow> number list list" where
  "generateEmbeddings texts = map generateMockEmbedding texts"

text \<open>
  \<open>calculateSimilarity\<close>: one loop accumulates the dot product and both sums of squares.
\<close>

definition similarity_step ::
  "number \<times> number \<times> number \<Rightarrow> number \<times> number \<Rightarrow> number \<times> number \<times> number" where
  "similarity_step acc p =
     (case acc of (dotProduct, magnitude1, magnitude2) \<Rightarrow>
        (num_add dotProduct (num_mul (fst p) (snd p)),
         num_add magnitude1 (num_mul (fst p) (fst p)),
         num_add magnitude2 (num_mul (snd p) (snd p))))"

definition calculateSimilarity :: "number list \<Rightarrow> number list \<Rightarrow> error + number" where
  "calculateSimilarity embedding1 embedding2 =
     (if length embedding1 \<noteq> length embedding2
      then Inl (Error ''Embeddings must have the same dimension'')
      else
        (case foldl similarity_step (Fin 0, Fin 0, Fin 0) (zip embedding1 embedding2) of
           (dotProduct, s1, s2) \<Rightarrow>
             (let magnitude1 = num_sqrt s1; magnitude2 = num_sqrt s2
              in if magnitude1 = Fin 0 \<or> magnitude2 = Fin 0 then Inr (Fin 0)
                 else Inr (num_div dotProduct (num_mul magnitude1 magnitude2)))))"

section \<open>JavaScript strings\<close>

text \<open>
  A string is the list of its code units, here the 8-bit characters of HOL: text outside
  Latin-1 is not modelled. \<open>isWhitespace\<close> is the class \<open>\s\<close> of a regular expression
  and what \<open>trim\<close> removes; \<open>isLineTerminator\<close> is what \<open>.\<close> does not match.
\<close>

definition nl :: char where
  "nl = CHR 0x0A"

definition isWhitespace :: "char \<Rightarrow> bool" where
  "isWhitespace c = (c = CHR 0x09 \<or> c = CHR 0x0A \<or> c = CHR 0x0B \<or> c = CHR 0x0C
                     \<or> c = CHR 0x0D \<or> c = CHR 0x20 \<or> c = CHR 0xA0)"

definition isLineTerminator :: "char \<Rightarrow> bool" where
  "isLineTerminator c = (c = CHR 0x0A \<or> c = CHR 0x0D)"

definition trim :: "string \<Rightarrow> string" where
  "trim s = rev (dropWhile isWhitespace (rev (dropWhile isWhitespace s)))"

text \<open>\<open>s.split(sep)\<close> for a string separator: cut at each occurrence, left to right.\<close>

fun split_go :: "string \<Rightarrow> string \<Rightarrow> string \<Rightarrow> string list" where
  "split_go sep acc [] = [acc]"
| "split_go sep acc (c # cs) =
     (if take (length sep) (c # cs) = sep
      then acc # split_go sep [] (drop (length sep - 1) cs)
      else split_go sep (acc @ [c]) cs)"

definition split_str :: "string \<Rightarrow> string \<Rightarrow> string list" where
  "split_str sep s = (if sep = [] then map (\<lambda>c. [c]) s else split_go sep [] s)"

fun join :: "string \<Rightarrow> string list \<Rightarrow> string" where
  "join sep [] = []"
| "join sep [x] = x"
| "join sep (x # y # ys) = x @ sep @ join sep (y # ys)"


text \<open>\<open>xs.slice(0, end)\<close>: a negative \<open>end\<close> counts from the end of the array.\<close>

definition slice0 :: "'a list \<Rightarrow> int \<Rightarrow> 'a list" where
  "slice0 xs e = (if e < 0 then take (length xs - nat (- e)) xs else take (nat e) xs)"

fun str_includes :: "string \<Rightarrow> string \<Rightarrow> bool" where
  "str_includes [] sub = (sub = [])"
| "str_includes (c # cs) sub = (take (length sub) (c # cs) = sub \<or> str_includes cs sub)"

text \<open>
  \<open>text.split(/\n\s*\n/)\<close>. \<open>matchBlank cs\<close> is the match of \<open>\s*\n\<close> right after a
  newline: the run of whitespace up to its last newline (the star is greedy), as the
  number of characters matched, or \<open>None\<close> when the run holds no newline.
\<close>

definition matchBlank :: "string \<Rightarrow> nat option" where
  "matchBlank cs =
     (let run = takeWhile isWhitespace cs
      in if nl \<in> set run
         then Some (length run - length (takeWhile (\<lambda>c. c \<noteq> nl) (rev run)))
         else None)"

fun splitParagraphs_go :: "string \<Rightarrow> string \<Rightarrow> string list" where
  "splitParagraphs_go acc [] = [acc]"
| "splitParagraphs_go acc (c # cs) =
     (if c = nl
      then (case matchBlank cs of
              Some n \<Rightarrow> acc # splitParagraphs_go [] (drop n cs)
            | None \<Rightarrow> splitParagraphs_go (acc @ [c]) cs)
      else splitParagraphs_go (acc @ [c]) cs)"

definition splitParagraphs :: "string \<Rightarrow> string list" where
  "splitParagraphs text = splitParagraphs_go [] text"

text \<open>
  \<open>trimmed.match(/^(#{1,6})\s+(.+)$/)\<close>: one to six \<open>#\<close>, then whitespace, then the heading
  text, which runs to the end of the string and holds no line terminator. The result is
  the length of the first group and the second group. When the whitespace runs to the
  end of the string, the expression backtracks and gives its last character to the
  second group.
\<close>

definition headingMatch :: "string \<Rightarrow> (nat \<times> string) option" where
  "headingMatch s =
     (let hashes = takeWhile (\<lambda>c. c = CHR ''#'') s;
          r1 = dropWhile (\<lambda>c. c = CHR ''#'') s;
          ws = takeWhile isWhitespace r1;
          r2 = dropWhile isWhitespace r1
      in if length hashes < 1 \<or> 6 < length hashes \<or> ws = [] then None
         else if r2 \<noteq> [] then
           (if list_ex isLineTerminator r2 then None else Some (length hashes, r2))
         else if 2 \<le> length ws \<and> \<not> isLineTerminator (last ws)
           then Some (length hashes, [last ws])
         else None)"

text \<open>\<open>content.match(/^#{1,6}\s+/)\<close>\<close>

definition startsWithHeading :: "string \<Rightarrow> bool" where
  "startsWithHeading s =
     (let hashes = takeWhile (\<lambda>c. c = CHR ''#'') s;
          r1 = dropWhile (\<lambda>c. c = CHR ''#'') s
      in 1 \<le> length hashes \<and> length hashes \<le> 6 \<and> takeWhile isWhitespace r1 \<noteq> [])"

text \<open>
  \<open>content.split(/\s+/).length\<close>: one more than the number of maximal runs of whitespace.
\<close>

fun whitespaceRuns :: "bool \<Rightarrow> string \<Rightarrow> nat" where
  "whitespaceRuns inRun [] = 0"
| "whitespaceRuns inRun (c # cs) =
     (if isWhitespace c then (if inRun then 0 else 1) + whitespaceRuns True cs
      else whitespaceRuns False cs)"

section \<open>SimpleTextSplitter\<close>

datatype chunk_type = Code | Table | Heading | Text

record metadata =
  md_source :: string
  md_library :: "string option"
  md_version :: "string option"

record chunk =
  content :: string
  headingPath :: string
  index :: nat
  type :: chunk_type
  tokenCount :: nat
  metadata :: metadata

record splitter =
  maxChunkSize :: nat
  chunkOverlap :: nat

text \<open>The constructor: \<open>options.maxChunkSize || 1000\<close>, \<open>options.chunkOverlap || 200\<close>.\<close>

definition new_splitter :: "nat option \<Rightarrow> nat option \<Rightarrow> splitter" where
  "new_splitter optSize optOverlap =
     \<lparr>maxChunkSize = (case optSize of None \<Rightarrow> 1000 | Some n \<Rightarrow> if n = 0 then 1000 else n),
      chunkOverlap = (case optOverlap of None \<Rightarrow> 200 | Some n \<Rightarrow> if n = 0 then 200 else n)\<rparr>"

definition detectChunkType :: "string \<Rightarrow> chunk_type" where
  "detectChunkType c =
     (if str_includes c ''```'' then Code
      else if str_includes c ''|'' \<and> str_includes c ''---'' then Table
      else if startsWithHeading c then Heading
      else Text)"

definition createChunk :: "string \<Rightarrow> string \<Rightarrow> nat \<Rightarrow> metadata \<Rightarrow> chunk" where
  "createChunk c path i md =
     \<lparr>content = c, headingPath = path, index = i, type = detectChunkType c,
      tokenCount = whitespaceRuns False c + 1, metadata = md\<rparr>"

definition updateHeadingPath :: "string \<Rightarrow> string \<Rightarrow> nat \<Rightarrow> string" where
  "updateHeadingPath currentPath newHeading level =
     (if currentPath = [] then newHeading
      else
        (let pathParts = split_str '' > '' currentPath;
             newPath = slice0 pathParts (int level - 1) @ [newHeading]
         in join '' > '' newPath))"

text \<open>The variables of the loop of \<open>splitText\<close>.\<close>

record split_state =
  st_chunks :: "chunk list"
  currentHeading :: string
  currentChunk :: string
  chunkIndex :: nat

text \<open>
  \<open>chunks.push(this.createChunk(currentChunk.trim(), currentHeading, chunkIndex++, metadata))\<close>
\<close>

definition push_chunk :: "metadata \<Rightarrow> split_state \<Rightarrow> split_state" where
  "push_chunk md st =
     st\<lparr>st_chunks := st_chunks st @ [createChunk (trim (currentChunk st)) (currentHeading st)
                                   (chunkIndex st) md],
        chunkIndex := chunkIndex st + 1\<rparr>"

definition paragraph_step :: "splitter \<Rightarrow> metadata \<Rightarrow> split_state \<Rightarrow> string \<Rightarrow> split_state" where
  "paragraph_step sp md st paragraph =
     (let trimmed = trim paragraph
      in if trimmed = [] then st
         else
           (case headingMatch trimmed of
              Some (level, headingText) \<Rightarrow>
                (let st1 = (if trim (currentChunk st) \<noteq> []
                            then (push_chunk md st)\<lparr>currentChunk := []\<rparr> else st)
                 in st1\<lparr>currentHeading := updateHeadingPath (currentHeading st1) headingText level,
                        currentChunk := trimmed @ [nl, nl]\<rparr>)
            | None \<Rightarrow>
                (let proposedChunk = currentChunk st @ trimmed @ [nl, nl]
                 in if maxChunkSize sp < length proposedChunk \<and> trim (currentChunk st) \<noteq> []
                    then (push_chunk md st)\<lparr>currentChunk := trimmed @ [nl, nl]\<rparr>
                    else st\<lparr>currentChunk := proposedChunk\<rparr>)))"

definition splitText :: "splitter \<Rightarrow> string \<Rightarrow> metadata \<Rightarrow> chunk list" where
  "splitText sp text md =
     (let st = foldl (paragraph_step sp md)
                 \<lparr>st_chunks = [], currentHeading = [], currentChunk = [], chunkIndex = 0\<rparr>
                 (splitParagraphs text);
          st' = (if trim (currentChunk st) \<noteq> [] then push_chunk md st else st)
      in if st_chunks st' = [] \<and> trim text \<noteq> []
         then st_chunks st' @ [createChunk (trim text) (currentHeading st') 0 md]
         else st_chunks st')"

section \<open>The schema and DatabaseManager\<close>

text \<open>
  The tables of \<open>schema.sql\<close>, each the list of its rows in insertion order. The column
  \<open>indexed_at\<close> of \<open>documents\<close> (the time of the insert) is left out. The three
  \<open>AUTOINCREMENT\<close> keys are drawn from the counters of \<open>sqlite_sequence\<close>. Foreign keys
  are enforced, as the schema declares them (better-sqlite3 opens a database with foreign
  keys on).
\<close>

record document_row =
  d_id :: nat
  d_title :: string
  d_library :: string
  d_version :: string
  d_file_path :: "string option"

record chunk_row =
  c_id :: nat
  c_document_id :: nat
  c_content :: string
  c_chunk_index :: nat
  c_heading_path :: string

record fts_row =
  f_rowid :: nat
  f_content :: "string option"
  f_heading_path :: string

record embedding_row =
  e_id :: nat
  e_chunk_id :: nat
  e_embedding :: "number list"

record database =
  documents :: "document_row list"
  chunks :: "chunk_row list"
  chunks_fts :: "fts_row list"
  embeddings :: "embedding_row list"
  seq_documents :: nat
  seq_chunks :: nat
  seq_embeddings :: nat

definition empty_database :: database where
  "empty_database =
     \<lparr>documents = [], chunks = [], chunks_fts = [], embeddings = [],
      seq_documents = 0, seq_chunks = 0, seq_embeddings = 0\<rparr>"

text \<open>
  The key of a new row of an \<open>AUTOINCREMENT\<close> table: one more than the largest key the
  table has ever held.
\<close>

definition autoincrement :: "nat \<Rightarrow> nat list \<Rightarrow> nat" where
  "autoincrement seq ids = Suc (foldr max ids seq)"

text \<open>
  The objects handed to \<open>insertDocument\<close>, as the properties it reads off them; \<open>None\<close>
  is \<open>null\<close> or \<open>undefined\<close>.
\<close>

record document =
  doc_title :: "string option"
  doc_content :: string
  doc_url :: "string option"
  doc_library :: "string option"
  doc_version :: "string option"
  doc_filePath :: "string option"

record chunk_arg =
  arg_content :: "string option"
  arg_headingPath :: "string option"

definition as_arg :: "chunk \<Rightarrow> chunk_arg" where
  "as_arg c = \<lparr>arg_content = Some (content c), arg_headingPath = Some (headingPath c)\<rparr>"

text \<open>\<open>x || d\<close> and \<open>x || null\<close> for a string \<open>x\<close>: the empty string is falsy.\<close>

definition or_default :: "string option \<Rightarrow> string \<Rightarrow> string" where
  "or_default x d = (case x of None \<Rightarrow> d | Some v \<Rightarrow> if v = [] then d else v)"

definition or_null :: "string option \<Rightarrow> string option" where
  "or_null x = (case x of None \<Rightarrow> None | Some v \<Rightarrow> if v = [] then None else Some v)"

definition truthy :: "string option \<Rightarrow> bool" where
  "truthy x = (case x of None \<Rightarrow> False | Some v \<Rightarrow> v \<noteq> [])"

text \<open>
  The three prepared statements of \<open>insertDocument\<close>. A statement that fails changes
  nothing and throws.
\<close>

definition insertDoc_run ::
  "database \<Rightarrow> string option \<Rightarrow> string option \<Rightarrow> string \<Rightarrow> string option \<Rightarrow> error + database \<times> nat" where
  "insertDoc_run db title library version file_path =
     (case title of
        None \<Rightarrow> Inl (SqliteError ''NOT NULL constraint failed: documents.title'')
      | Some t \<Rightarrow>
          (case library of
             None \<Rightarrow> Inl (SqliteError ''NOT NULL constraint failed: documents.library'')
           | Some l \<Rightarrow>
               (let lastInsertRowid = autoincrement (seq_documents db) (map d_id (documents db))
                in Inr (db\<lparr>documents := documents db @
                              [\<lparr>d_id = lastInsertRowid, d_title = t, d_library = l,
                                d_version = version, d_file_path = file_path\<rparr>],
                           seq_documents := lastInsertRowid\<rparr>,
                        lastInsertRowid))))"

definition insertChunk_run ::
  "database \<Rightarrow> nat \<Rightarrow> string option \<Rightarrow> nat \<Rightarrow> string \<Rightarrow> error + database \<times> nat" where
  "insertChunk_run db documentId c i path =
     (case c of
        None \<Rightarrow> Inl (SqliteError ''NOT NULL constraint failed: chunks.content'')
      | Some text \<Rightarrow>
          if documentId \<in> set (map d_id (documents db))
          then
            (let lastInsertRowid = autoincrement (seq_chunks db) (map c_id (chunks db))
             in Inr (db\<lparr>chunks := chunks db @
                           [\<lparr>c_id = lastInsertRowid, c_document_id = documentId,
                             c_content = text, c_chunk_index = i, c_heading_path = path\<rparr>],
                        seq_chunks := lastInsertRowid\<rparr>,
                     lastInsertRowid))
          else Inl (SqliteError ''FOREIGN KEY constraint failed''))"

definition insertFts_run ::
  "database \<Rightarrow> nat \<Rightarrow> string option \<Rightarrow> string \<Rightarrow> error + database" where
  "insertFts_run db rowid c path =
     (if rowid \<in> set (map f_rowid (chunks_fts db))
      then Inl (SqliteError ''constraint failed'')
      else Inr (db\<lparr>chunks_fts := chunks_fts db @
                      [\<lparr>f_rowid = rowid, f_content = c, f_heading_path = path\<rparr>]\<rparr>))"

text \<open>
  The loop of \<open>insertDocument\<close> over the chunks, from index \<open>i\<close> on. No transaction
  encloses the statements: when one throws, the rows written before it stay.
\<close>

fun insertChunks ::
  "database \<Rightarrow> nat \<Rightarrow> nat \<Rightarrow> chunk_arg list \<Rightarrow> nat list \<Rightarrow> (error + nat list) \<times> database" where
  "insertChunks db documentId i [] chunkIds = (Inr chunkIds, db)"
| "insertChunks db documentId i (chunk # rest) chunkIds =
     (case insertChunk_run db documentId (arg_content chunk) i
             (or_default (arg_headingPath chunk) []) of
        Inl e \<Rightarrow> (Inl e, db)
      | Inr (db1, chunkId) \<Rightarrow>
          (case insertFts_run db1 chunkId (arg_content chunk)
                  (or_default (arg_headingPath chunk) []) of
             Inl e \<Rightarrow> (Inl e, db1)
           | Inr db2 \<Rightarrow> insertChunks db2 documentId (i + 1) rest (chunkIds @ [chunkId])))"

definition insertDocument ::
  "database \<Rightarrow> document \<Rightarrow> chunk_arg list \<Rightarrow> (error + nat \<times> nat list) \<times> database" where
  "insertDocument db doc cs =
     (case insertDoc_run db (doc_title doc) (doc_library doc)
             (or_default (doc_version doc) ''latest'') (or_null (doc_filePath doc)) of
        Inl e \<Rightarrow> (Inl e, db)
      | Inr (db1, documentId) \<Rightarrow>
          (case insertChunks db1 documentId 0 cs [] of
             (Inl e, db2) \<Rightarrow> (Inl e, db2)
           | (Inr chunkIds, db2) \<Rightarrow> (Inr (documentId, chunkIds), db2)))"

text \<open>
  \<open>INSERT OR REPLACE INTO embeddings (chunk_id, embedding)\<close>: a row in conflict with the
  new one on a key of the table would be deleted first. The only key of \<open>embeddings\<close>
  is \<open>id\<close>, which the statement does not set (the index on \<open>chunk_id\<close> is not unique).
  \<open>JSON.stringify\<close> is not modelled: the row keeps the array itself.
\<close>

definition insertEmbedding_run ::
  "database \<Rightarrow> nat \<Rightarrow> number list option \<Rightarrow> error + database" where
  "insertEmbedding_run db chunkId embedding =
     (case embedding of
        None \<Rightarrow> Inl (SqliteError ''NOT NULL constraint failed: embeddings.embedding'')
      | Some v \<Rightarrow>
          if chunkId \<in> set (map c_id (chunks db))
          then
            (let lastInsertRowid = autoincrement (seq_embeddings db) (map e_id (embeddings db))
             in Inr (db\<lparr>embeddings := filter (\<lambda>r. e_id r \<noteq> lastInsertRowid) (embeddings db) @
                           [\<lparr>e_id = lastInsertRowid, e_chunk_id = chunkId, e_embedding = v\<rparr>],
                        seq_embeddings := lastInsertRowid\<rparr>))
          else Inl (SqliteError ''FOREIGN KEY constraint failed''))"

fun insertMany :: "database \<Rightarrow> (nat \<times> number list option) list \<Rightarrow> error + database" where
  "insertMany db [] = Inr db"
| "insertMany db ((chunkId, embedding) # rest) =
     (case insertEmbedding_run db chunkId embedding of
        Inl e \<Rightarrow> Inl e
      | Inr db1 \<Rightarrow> insertMany db1 rest)"

text \<open>\<open>this.db.transaction\<close>: when the function throws, the database is rolled back.\<close>

definition insertEmbeddings ::
  "database \<Rightarrow> (nat \<times> number list option) list \<Rightarrow> (error + unit) \<times> database" where
  "insertEmbeddings db chunkEmbeddings =
     (case insertMany db chunkEmbeddings of
        Inl e \<Rightarrow> (Inl e, db)
      | Inr db1 \<Rightarrow> (Inr (), db1))"

text \<open>
  The full-text engine (FTS5) is a parameter: \<open>fts_match q\<close> is the predicate of the
  query \<open>q\<close> on the rows of the index, or \<open>None\<close> when \<open>q\<close> is not a query of the
  engine (the statement throws); \<open>fts_rank q rows r\<close> is the rank of the row \<open>r\<close> in the
  index \<open>rows\<close>.
\<close>

record fts5 =
  fts_match :: "string \<Rightarrow> (fts_row \<Rightarrow> bool) option"
  fts_rank :: "string \<Rightarrow> fts_row list \<Rightarrow> fts_row \<Rightarrow> real"

datatype sqlval = SNull | SInt int | SReal real | SText string

text \<open>The object of a result row: its properties by name.\<close>

type_synonym row = "string \<Rightarrow> sqlval option"

definition nullable :: "string option \<Rightarrow> sqlval" where
  "nullable x = (case x of None \<Rightarrow> SNull | Some v \<Rightarrow> SText v)"

definition select_row :: "chunk_row \<Rightarrow> document_row \<Rightarrow> real \<Rightarrow> row" where
  "select_row c d rank =
     map_of [(''chunk_id'', SInt (int (c_id c))),
             (''content'', SText (c_content c)),
             (''heading_path'', SText (c_heading_path c)),
             (''title'', SText (d_title d)),
             (''library'', SText (d_library d)),
             (''version'', SText (d_version d)),
             (''file_path'', nullable (d_file_path d)),
             (''rank'', SReal rank)]"

text \<open>
  The rows of \<open>chunks_fts JOIN chunks JOIN documents WHERE chunks_fts MATCH ?\<close>, each
  with its rank, before \<open>ORDER BY\<close> and \<open>LIMIT\<close>.
\<close>

definition matching_rows :: "fts5 \<Rightarrow> database \<Rightarrow> string \<Rightarrow> (fts_row \<Rightarrow> bool) \<Rightarrow> (real \<times> row) list" where
  "matching_rows eng db q m =
     [(fts_rank eng q (chunks_fts db) f, select_row c d (fts_rank eng q (chunks_fts db) f)).
        f \<leftarrow> chunks_fts db, m f,
        c \<leftarrow> chunks db, f_rowid f = c_id c,
        d \<leftarrow> documents db, c_document_id c = d_id d]"

definition searchChunks :: "fts5 \<Rightarrow> database \<Rightarrow> string \<Rightarrow> nat \<Rightarrow> error + row list" where
  "searchChunks eng db q limit =
     (case fts_match eng q of
        None \<Rightarrow> Inl (SqliteError ''fts5: syntax error'')
      | Some m \<Rightarrow> Inr (take limit (map snd (sort_key fst (matching_rows eng db q m)))))"

text \<open>
  \<open>DELETE FROM documents WHERE library = ? [AND version = ?]\<close>. The rows of \<open>chunks\<close>
  that reference a deleted document go with it, and the rows of \<open>embeddings\<close> that
  reference one of those chunks (\<open>ON DELETE CASCADE\<close>). \<open>chunks_fts\<close> references nothing.
\<close>

definition in_library :: "string \<Rightarrow> string option \<Rightarrow> document_row \<Rightarrow> bool" where
  "in_library library version d =
     (d_library d = library \<and> (if truthy version then Some (d_version d) = version else True))"

definition deleteLibrary :: "database \<Rightarrow> string \<Rightarrow> string option \<Rightarrow> nat \<times> database" where
  "deleteLibrary db library version =
     (let docIds = map d_id (filter (in_library library version) (documents db));
          chunkIds = map c_id (filter (\<lambda>c. c_document_id c \<in> set docIds) (chunks db))
      in (length docIds,
          db\<lparr>documents := filter (\<lambda>d. \<not> in_library library version d) (documents db),
             chunks := filter (\<lambda>c. c_document_id c \<notin> set docIds) (chunks db),
             embeddings := filter (\<lambda>e. e_chunk_id e \<notin> set chunkIds) (embeddings db)\<rparr>))"

section \<open>DocumentIndexingService\<close>

text \<open>
  What an injected embeddings service can reject with: JavaScript throws any value.
  \<open>undefined\<close> and \<open>null\<close> are kept apart from the values that have properties,
  which are modelled as an error with its message. Both handlers of the service read
  \<open>error.message\<close> of what they catch; on \<open>undefined\<close> and \<open>null\<close> that read
  throws a \<open>TypeError\<close> of its own.
\<close>

datatype rejection = RejectUndefined | RejectNull | RejectWith error

definition read_message :: "rejection \<Rightarrow> error + string" where
  "read_message thrown =
     (case thrown of
        RejectUndefined \<Rightarrow>
          Inl (TypeError ''Cannot read properties of undefined (reading 'message')'')
      | RejectNull \<Rightarrow> Inl (TypeError ''Cannot read properties of null (reading 'message')'')
      | RejectWith e \<Rightarrow> Inr (message e))"

text \<open>
  The service holds the database, the embeddings service (any object with a
  \<open>generateEmbeddings\<close> that returns the vectors or rejects; \<open>None\<close> when the field is
  \<open>null\<close>) and a splitter made with \<open>maxChunkSize: 1000, chunkOverlap: 200\<close>. The file
  system is a map from paths to the text of the file.
\<close>

type_synonym embeddings_service = "string list \<Rightarrow> rejection + number list list"

definition mock_service :: embeddings_service where
  "mock_service texts = Inr (generateEmbeddings texts)"

definition service_splitter :: splitter where
  "service_splitter = new_splitter (Some 1000) (Some 200)"

record index_options =
  opt_library :: "string option"
  opt_version :: "string option"
  opt_title :: "string option"
  opt_separator :: "string option"

record index_result =
  documentId :: nat
  res_title :: "string option"
  res_chunks :: nat

datatype index_outcome =
  IndexSuccess (documentsIndexed: nat) (totalChunks: nat) (results: "index_result list")
| IndexFailure string

text \<open>
  \<open>path.basename\<close> and \<open>path.extname\<close> of Node, for POSIX paths: the part after the last
  slash, and what follows the last dot of it (a dot that starts it does not count).
\<close>

definition basename :: "string \<Rightarrow> string" where
  "basename p =
     rev (takeWhile (\<lambda>c. c \<noteq> CHR ''/'') (dropWhile (\<lambda>c. c = CHR ''/'') (rev p)))"

definition extname :: "string \<Rightarrow> string" where
  "extname p =
     (let b = basename p; ext = rev (takeWhile (\<lambda>c. c \<noteq> CHR ''.'') (rev b))
      in if CHR ''.'' \<in> set b \<and> length ext + 1 < length b then CHR ''.'' # ext else [])"

definition basename_ext :: "string \<Rightarrow> string \<Rightarrow> string" where
  "basename_ext p ext =
     (let b = basename p
      in if ext \<noteq> [] \<and> length ext < length b \<and> drop (length b - length ext) b = ext
         then take (length b - length ext) b else b)"

text \<open>A number in a template string.\<close>

fun string_of_nat :: "nat \<Rightarrow> string" where
  "string_of_nat n =
     (if n < 10 then [char_of (48 + n)]
      else string_of_nat (n div 10) @ [char_of (48 + n mod 10)])"

text \<open>The logical documents of a file: its parts when a separator is given.\<close>

definition part_document ::
  "string \<Rightarrow> index_options \<Rightarrow> nat \<times> string \<Rightarrow> document list" where
  "part_document filePath opts ip =
     (let i = fst ip; part = trim (snd ip)
      in if part = [] then []
         else [\<lparr>doc_title =
                  Some ((if truthy (opt_title opts) then the (opt_title opts) else basename filePath)
                        @ '' - Part '' @ string_of_nat (i + 1)),
                doc_content = part,
                doc_url = Some (''file://'' @ filePath @ ''#part-'' @ string_of_nat (i + 1)),
                doc_library = opt_library opts,
                doc_version = Some (case opt_version opts of None \<Rightarrow> ''latest'' | Some v \<Rightarrow> v),
                doc_filePath = None\<rparr>])"

definition logical_documents :: "string \<Rightarrow> string \<Rightarrow> index_options \<Rightarrow> document list" where
  "logical_documents filePath text opts =
     (if truthy (opt_separator opts)
      then concat (map (part_document filePath opts)
                     (enumerate 0 (split_str (the (opt_separator opts)) text)))
      else [\<lparr>doc_title =
               Some (if truthy (opt_title opts) then the (opt_title opts)
                     else basename_ext filePath (extname filePath)),
             doc_content = text,
             doc_url = Some (''file://'' @ filePath),
             doc_library = opt_library opts,
             doc_version = Some (case opt_version opts of None \<Rightarrow> ''latest'' | Some v \<Rightarrow> v),
             doc_filePath = None\<rparr>])"

text \<open>
  The \<open>try\<close> block around the embeddings of one document and its handler,
  \<open>console.log(..., error.message)\<close>. What the block throws is caught, and the database
  is as \<open>insertEmbeddings\<close> left it; the errors of \<open>insertEmbeddings\<close> and the
  \<open>TypeError\<close> of a service that is \<open>null\<close> have a message. When the service rejects
  with \<open>undefined\<close> or \<open>null\<close>, the handler itself throws.
\<close>

definition nth_opt :: "'a list \<Rightarrow> nat \<Rightarrow> 'a option" where
  "nth_opt xs i = (if i < length xs then Some (xs ! i) else None)"

definition embed_chunks ::
  "embeddings_service option \<Rightarrow> database \<Rightarrow> chunk list \<Rightarrow> nat list \<Rightarrow> error + database" where
  "embed_chunks svc db cs chunkIds =
     (case svc of
        None \<Rightarrow> Inr db
      | Some generate \<Rightarrow>
          (case generate (map content cs) of
             Inl thrown \<Rightarrow>
               (case read_message thrown of
                  Inl e \<Rightarrow> Inl e
                | Inr m \<Rightarrow> Inr db)
           | Inr vectors \<Rightarrow>
               Inr (snd (insertEmbeddings db
                      (map (\<lambda>ic. (snd ic, nth_opt vectors (fst ic))) (enumerate 0 chunkIds))))))"

text \<open>
  The loop of \<open>indexFile\<close> over the logical documents, with \<open>totalChunks\<close> and
  \<open>results\<close> so far. An error of \<open>insertDocument\<close>, or of the handler of the
  embeddings step, leaves the loop for the outer \<open>catch\<close>.
\<close>

fun index_documents ::
  "embeddings_service option \<Rightarrow> string \<Rightarrow> index_options \<Rightarrow> database \<Rightarrow> document list \<Rightarrow>
   nat \<Rightarrow> index_result list \<Rightarrow> (error + nat \<times> index_result list) \<times> database" where
  "index_documents svc filePath opts db [] tally res = (Inr (tally, res), db)"
| "index_documents svc filePath opts db (doc # docs) tally res =
     (let cs = splitText service_splitter (doc_content doc)
                 \<lparr>md_source = filePath, md_library = opt_library opts,
                  md_version = Some (case opt_version opts of None \<Rightarrow> ''latest'' | Some v \<Rightarrow> v)\<rparr>
      in case insertDocument db doc (map as_arg cs) of
           (Inl e, db1) \<Rightarrow> (Inl e, db1)
         | (Inr (docId, chunkIds), db1) \<Rightarrow>
             (case embed_chunks svc db1 cs chunkIds of
                Inl e \<Rightarrow> (Inl e, db1)
              | Inr db2 \<Rightarrow>
                  index_documents svc filePath opts db2 docs (tally + length cs)
                    (res @ [\<lparr>documentId = docId, res_title = doc_title doc,
                             res_chunks = length cs\<rparr>])))"

definition indexFile ::
  "embeddings_service option \<Rightarrow> (string \<Rightarrow> string option) \<Rightarrow> database \<Rightarrow> string \<Rightarrow>
   index_options \<Rightarrow> index_outcome \<times> database" where
  "indexFile svc files db filePath opts =
     (case files filePath of
        None \<Rightarrow> (IndexFailure (''File not found: '' @ filePath), db)
      | Some text \<Rightarrow>
          (let docs = logical_documents filePath text opts
           in case index_documents svc filePath opts db docs 0 [] of
                (Inl e, db1) \<Rightarrow> (IndexFailure (message e), db1)
              | (Inr (tally, res), db1) \<Rightarrow> (IndexSuccess (length docs) tally res, db1)))"

text \<open>\<open>searchDocuments\<close>\<close>

record search_options =
  so_library :: "string option"
  so_version :: "string option"
  so_limit :: "nat option"
  so_useSemanticSearch :: "bool option"

record search_result =
  title :: "sqlval option"
  library :: "sqlval option"
  version :: "sqlval option"
  url :: "sqlval option"
  sr_content :: "sqlval option"
  sr_headingPath :: "sqlval option"
  chunkType :: "sqlval option"
  score :: sqlval

text \<open>
  What \<open>searchDocuments\<close> returns: the object of a success or of a failure. When its
  own handler throws, it returns nothing and rejects (\<open>SearchThrows\<close>).
\<close>

datatype search_outcome =
  SearchSuccess (found: "search_result list") string nat
| SearchFailure string
| SearchThrows error

text \<open>\<open>result.rank || 0\<close>\<close>

definition rank_or_zero :: "sqlval option \<Rightarrow> sqlval" where
  "rank_or_zero v =
     (case v of
        Some (SReal r) \<Rightarrow> if r = 0 then SInt 0 else SReal r
      | Some (SInt i) \<Rightarrow> SInt i
      | Some (SText t) \<Rightarrow> if t = [] then SInt 0 else SText t
      | _ \<Rightarrow> SInt 0)"

definition shape_result :: "row \<Rightarrow> search_result" where
  "shape_result result =
     \<lparr>title = result ''title'',
      library = result ''library'',
      version = result ''version'',
      url = result ''url'',
      sr_content = result ''content'',
      sr_headingPath = result ''heading_path'',
      chunkType = result ''chunk_type'',
      score = rank_or_zero (result ''rank'')\<rparr>"

definition keep_result :: "string option \<Rightarrow> string option \<Rightarrow> row \<Rightarrow> bool" where
  "keep_result lib ver result =
     (if truthy lib \<and> result ''library'' \<noteq> Some (SText (the lib)) then False
      else if truthy ver \<and> result ''version'' \<noteq> Some (SText (the ver)) then False
      else True)"

definition searchDocuments ::
  "embeddings_service option \<Rightarrow> fts5 \<Rightarrow> database \<Rightarrow> string \<Rightarrow> search_options \<Rightarrow> search_outcome" where
  "searchDocuments svc eng db q opts =
     (let limit = (case so_limit opts of None \<Rightarrow> 10 | Some n \<Rightarrow> n);
          useSemanticSearch = (case so_useSemanticSearch opts of None \<Rightarrow> True | Some b \<Rightarrow> b)
      in case searchChunks eng db q (limit * 2) of
           Inl e \<Rightarrow> SearchFailure (message e)
         | Inr ftsResults \<Rightarrow>
             (case (if useSemanticSearch then svc else None) of
                None \<Rightarrow>
                  (let res = take limit
                        (if truthy (so_library opts) \<or> truthy (so_version opts)
                         then filter (keep_result (so_library opts) (so_version opts)) ftsResults
                         else ftsResults)
                   in SearchSuccess (map shape_result res) q (length res))
              | Some generate \<Rightarrow>
                  (case generate [q] of
                     Inl thrown \<Rightarrow>
                       (case read_message thrown of
                          Inl e \<Rightarrow> SearchThrows e
                        | Inr m \<Rightarrow> SearchFailure m)
                   | Inr queryEmbedding \<Rightarrow>
                       (let res = take limit
                             (if truthy (so_library opts) \<or> truthy (so_version opts)
                              then filter (keep_result (so_library opts) (so_version opts)) ftsResults
                              else ftsResults)
                        in SearchSuccess (map shape_result res) q (length res)))))"

section \<open>Invariants\<close>

text \<open>
  The invariant of the loop of \<open>splitText\<close>: the counter is the number of chunks
  emitted, and the chunks carry the indices from 0 in the order of emission.
\<close>

definition indexed :: "split_state \<Rightarrow> bool" where
  "indexed st = (chunkIndex st = length (st_chunks st)
                 \<and> map index (st_chunks st) = [0..<length (st_chunks st)])"

text \<open>
  What the foreign keys of the schema maintain: every chunk references a document of the
  database, and every embedding a chunk.
\<close>

definition referential :: "database \<Rightarrow> bool" where
  "referential db =
     (list_all (\<lambda>c. c_document_id c \<in> set (map d_id (documents db))) (chunks db)
      \<and> list_all (\<lambda>e. e_chunk_id e \<in> set (map c_id (chunks db))) (embeddings db))"

text \<open>A service that never rejects with \<open>undefined\<close> or \<open>null\<close>.\<close>

definition never_nullish :: "embeddings_service option \<Rightarrow> bool" where
  "never_nullish svc =
     (case svc of
        None \<Rightarrow> True
      | Some generate \<Rightarrow>
          (\<forall>texts. generate texts \<noteq> Inl RejectUndefined \<and> generate texts \<noteq> Inl RejectNull))"

text \<open>What a database holds apart from the embeddings and their counter.\<close>

definition document_store :: "database \<Rightarrow> database" where
  "document_store db = db\<lparr>embeddings := [], seq_embeddings := 0\<rparr>"

section \<open>Scenarios\<close>

text \<open>
  Concrete inputs for the evaluations below: a stand-in for the full-text engine that
  matches a row when its text contains the query and ranks the rows in the order of
  their keys, and small databases built from the empty one by \<open>insertDocument\<close>.
\<close>

definition substring_engine :: fts5 where
  "substring_engine =
     \<lparr>fts_match = (\<lambda>q. if q = [] then None
                        else Some (\<lambda>r. case f_content r of None \<Rightarrow> False
                                         | Some c \<Rightarrow> str_includes c q)),
      fts_rank = (\<lambda>q rows r. - (1 / real (f_rowid r)))\<rparr>"

definition sample_document :: "string \<Rightarrow> string \<Rightarrow> document" where
  "sample_document t l =
     \<lparr>doc_title = Some t, doc_content = [], doc_url = Some ''file:///docs/guide.md'',
      doc_library = Some l, doc_version = None, doc_filePath = None\<rparr>"

definition text_chunk :: "string \<Rightarrow> chunk_arg" where
  "text_chunk c = \<lparr>arg_content = Some c, arg_headingPath = Some []\<rparr>"

definition null_chunk :: chunk_arg where
  "null_chunk = \<lparr>arg_content = None, arg_headingPath = None\<rparr>"

definition one_chunk_db :: database where
  "one_chunk_db = snd (insertDocument empty_database (sample_document ''Guide'' ''docs'') [text_chunk ''alpha''])"

definition three_document_db :: database where
  "three_document_db =
     snd (insertDocument
       (snd (insertDocument
         (snd (insertDocument empty_database (sample_document ''One'' ''A'') [text_chunk ''foo one'']))
         (sample_document ''Two'' ''A'') [text_chunk ''foo two'']))
       (sample_document ''Three'' ''B'') [text_chunk ''foo three''])"

definition guide_text :: string where
  "guide_text = ''# Intro'' @ [nl, nl] @ ''Hello world.'' @ [nl, nl] @ ''# Setup'' @ [nl, nl]
                  @ ''Run npm install.''"

definition guide_files :: "string \<Rightarrow> string option" where
  "guide_files = map_of [(''/docs/guide.md'', guide_text)]"

definition guide_metadata :: metadata where
  "guide_metadata =
     \<lparr>md_source = ''/docs/guide.md'', md_library = Some ''docs'', md_version = Some ''latest''\<rparr>"

definition failing_service :: embeddings_service where
  "failing_service texts = Inl (RejectWith (Error ''embedding backend unavailable''))"

text \<open>A service whose \<open>generateEmbeddings\<close> is \<open>() => Promise.reject()\<close>.\<close>

definition rejecting_service :: embeddings_service where
  "rejecting_service texts = Inl RejectUndefined"

definition guide_options :: index_options where
  "guide_options =
     \<lparr>opt_library = Some ''docs'', opt_version = None, opt_title = None, opt_separator = None\<rparr>"

section \<open>Properties of the embeddings service\<close>

lemma similarity_fold:
  "length a = length b \<Longrightarrow>
   foldl similarity_step (d, s1, s2) (zip a b) =
     (foldl (\<lambda>acc p. num_add acc (num_mul (fst p) (snd p))) d (zip a b),
      foldl (\<lambda>sum val. num_add sum (num_mul val val)) s1 a,
      foldl (\<lambda>sum val. num_add sum (num_mul val val)) s2 b)"
proof (induction a arbitrary: b d s1 s2)
  case Nil
  then show ?case by simp
next
  case (Cons x xs)
  then obtain y ys where b: "b = y # ys" by (cases b) auto
  with Cons.prems have "length xs = length ys" by simp
  from Cons.IH [OF this] show ?case
    by (simp add: b similarity_step_def)
qed

lemma similarity_zero_magnitude:
  assumes "length a = length b" and "magnitude a = Fin 0 \<or> magnitude b = Fin 0"
  shows "calculateSimilarity a b = Inr (Fin 0)"
  using assms
  by (auto simp: calculateSimilarity_def similarity_fold magnitude_def sum_squares_def)

lemma similarity_error_iff:
  "isl (calculateSimilarity a b) = (length a \<noteq> length b)"
  by (simp add: calculateSimilarity_def Let_def split: prod.splits)

text \<open>
  C8. \<open>calculateSimilarity\<close> throws exactly when the two vectors differ in length; for
  vectors of one length it returns 0 as soon as either has magnitude 0 (whatever the
  other holds); and it gives 1 on \<open>[1,0]\<close>, \<open>[1,0]\<close> and 0 on \<open>[1,0]\<close>, \<open>[0,1]\<close>.
\<close>

theorem calculateSimilarity_contract:
  "isl (calculateSimilarity a b) = (length a \<noteq> length b)
   \<and> (length a = length b \<and> (magnitude a = Fin 0 \<or> magnitude b = Fin 0)
        \<longrightarrow> calculateSimilarity a b = Inr (Fin 0))
   \<and> calculateSimilarity [Fin 1, Fin 0] [Fin 1, Fin 0] = Inr (Fin 1)
   \<and> calculateSimilarity [Fin 1, Fin 0] [Fin 0, Fin 1] = Inr (Fin 0)"
proof -
  have ex1: "calculateSimilarity [Fin 1, Fin 0] [Fin 1, Fin 0] = Inr (Fin 1)"
    by (simp add: calculateSimilarity_def similarity_step_def)
  have ex2: "calculateSimilarity [Fin 1, Fin 0] [Fin 0, Fin 1] = Inr (Fin 0)"
    by (simp add: calculateSimilarity_def similarity_step_def)
  show ?thesis
    using similarity_error_iff similarity_zero_magnitude ex1 ex2 by blast
qed

theorem calculateSimilarity_contract_witness:
  "length [Fin 0, Fin 0] = length [Fin 1, Fin 0]
   \<and> magnitude [Fin 0, Fin 0] = Fin 0
   \<and> calculateSimilarity [Fin 0, Fin 0] [Fin 1, Fin 0] = Inr (Fin 0)
   \<and> \<not> isl (calculateSimilarity [Fin 0, Fin 0] [Fin 1, Fin 0])
   \<and> isl (calculateSimilarity [Fin 1] [Fin 1, Fin 0])"
proof -
  have m: "magnitude [Fin 0, Fin 0] = Fin 0"
    by (simp add: magnitude_def sum_squares_def)
  show ?thesis
    using calculateSimilarity_contract [of "[Fin 0, Fin 0]" "[Fin 1, Fin 0]"]
      calculateSimilarity_contract [of "[Fin 1]" "[Fin 1, Fin 0]"] m
    by simp
qed

lemma foldl_squares_zero:
  "foldl (\<lambda>sum val. num_add sum (num_mul val val)) (Fin 0) (replicate n (Fin 0)) = Fin 0"
  by (induction n) simp_all

lemma magnitude_zero_vector: "magnitude (replicate n (Fin 0)) = Fin 0"
  by (simp add: magnitude_def sum_squares_def foldl_squares_zero)

lemma simpleHash_empty: "simpleHash [] = Fin 0"
  by (simp add: simpleHash_def)

text \<open>
  C10. The normalisation divides by the magnitude with no guard for 0. For a text whose
  hash is 0 (the empty string is one) every component before normalisation is
  \<open>sin 0 * 0.5 = 0\<close>, the magnitude is 0, and each of the 384 components returned is
  \<open>0 / 0 = NaN\<close>: no unit vector.
\<close>

theorem generateMockEmbedding_zero_hash:
  "simpleHash text = Fin 0 \<Longrightarrow>
   generateMockEmbedding text = replicate 384 NaN
   \<and> magnitude (generateMockEmbedding text) \<noteq> Fin 1"
proof -
  assume h: "simpleHash text = Fin 0"
  have g: "generateMockEmbedding text = replicate dimension NaN"
    by (simp add: generateMockEmbedding_def Let_def h map_replicate_const magnitude_zero_vector
        comp_def)
  have f: "foldl (\<lambda>sum val. num_add sum (num_mul val val)) NaN (replicate n NaN) = NaN" for n
    by (induction n) simp_all
  have m: "magnitude (replicate (Suc n) NaN) = NaN" for n
    by (simp add: magnitude_def sum_squares_def f)
  have n: "(384::nat) = Suc 383"
    by simp
  have "magnitude (replicate 384 NaN) = NaN"
    unfolding n by (rule m)
  with g show ?thesis
    by (simp add: dimension_def)
qed

theorem generateMockEmbedding_zero_hash_witness:
  "simpleHash [] = Fin 0
   \<and> generateMockEmbedding [] = replicate 384 NaN
   \<and> length (generateMockEmbedding []) = 384
   \<and> list_all (\<lambda>v. \<not> is_finite v) (generateMockEmbedding [])"
  using generateMockEmbedding_zero_hash [OF simpleHash_empty]
  by (simp add: simpleHash_empty list_all_length)

section \<open>Properties of the splitter\<close>










lemma push_chunk_indexed: "indexed st \<Longrightarrow> indexed (push_chunk md st)"
  by (simp add: indexed_def push_chunk_def createChunk_def)

lemma indexed_currentChunk [simp]: "indexed (st\<lparr>currentChunk := c\<rparr>) = indexed st"
  by (simp add: indexed_def)

lemma indexed_currentHeading [simp]: "indexed (st\<lparr>currentHeading := c\<rparr>) = indexed st"
  by (simp add: indexed_def)

lemma paragraph_step_indexed: "indexed st \<Longrightarrow> indexed (paragraph_step sp md st p)"
  by (auto simp: paragraph_step_def Let_def push_chunk_indexed split: option.splits)

lemma foldl_paragraph_step_indexed:
  "indexed st \<Longrightarrow> indexed (foldl (paragraph_step sp md) st ps)"
  by (induction ps arbitrary: st) (simp_all add: paragraph_step_indexed)

lemma splitText_indices:
  "map index (splitText sp text md) = [0..<length (splitText sp text md)]"
proof -
  let ?st = "foldl (paragraph_step sp md)
               \<lparr>st_chunks = [], currentHeading = [], currentChunk = [], chunkIndex = 0\<rparr>
               (splitParagraphs text)"
  have "indexed ?st"
    by (rule foldl_paragraph_step_indexed) (simp add: indexed_def)
  then have "indexed (if trim (currentChunk ?st) \<noteq> [] then push_chunk md ?st else ?st)"
    by (simp add: push_chunk_indexed)
  then show ?thesis
    by (auto simp: splitText_def Let_def indexed_def createChunk_def)
qed

lemma splitText_nonempty: "trim text \<noteq> [] \<Longrightarrow> splitText sp text md \<noteq> []"
  by (auto simp: splitText_def Let_def)

section \<open>Properties of the database\<close>

lemma foldr_max_ge: "x \<in> set ids \<Longrightarrow> x \<le> foldr max ids (seq::nat)"
  by (induction ids) auto

lemma autoincrement_fresh: "autoincrement seq ids \<notin> set ids"
proof
  assume "autoincrement seq ids \<in> set ids"
  from foldr_max_ge [OF this, of seq] show False
    by (simp add: autoincrement_def)
qed

lemma insertChunks_rows:
  "insertChunks db docId i cs ids = (Inr ids', db') \<Longrightarrow>
   \<exists>rows. chunks db' = chunks db @ rows
     \<and> map c_chunk_index rows = [i..<i + length cs]
     \<and> map (\<lambda>r. Some (c_content r)) rows = map arg_content cs
     \<and> map c_heading_path rows = map (\<lambda>c. or_default (arg_headingPath c) []) cs
     \<and> map c_document_id rows = replicate (length cs) docId
     \<and> ids' = ids @ map c_id rows
     \<and> documents db' = documents db
     \<and> embeddings db' = embeddings db"
proof (induction cs arbitrary: db i ids)
  case Nil
  then show ?case by simp
next
  case (Cons c cs)
  from Cons.prems obtain db1 chunkId db2 where
    a: "insertChunk_run db docId (arg_content c) i (or_default (arg_headingPath c) []) = Inr (db1, chunkId)"
    and b: "insertFts_run db1 chunkId (arg_content c) (or_default (arg_headingPath c) []) = Inr db2"
    and r: "insertChunks db2 docId (i + 1) cs (ids @ [chunkId]) = (Inr ids', db')"
    by (auto split: sum.splits prod.splits)
  from a obtain t where t: "arg_content c = Some t"
    and db1: "chunks db1 = chunks db @ [\<lparr>c_id = chunkId, c_document_id = docId, c_content = t,
                c_chunk_index = i, c_heading_path = or_default (arg_headingPath c) []\<rparr>]"
        "documents db1 = documents db" "embeddings db1 = embeddings db"
    by (auto simp: insertChunk_run_def Let_def split: option.splits if_splits)
  from b have db2: "chunks db2 = chunks db1" "documents db2 = documents db1" "embeddings db2 = embeddings db1"
    by (auto simp: insertFts_run_def split: if_splits)
  from Cons.IH [OF r] obtain rows where
    rows: "chunks db' = chunks db2 @ rows"
      "map c_chunk_index rows = [i + 1..<i + 1 + length cs]"
      "map (\<lambda>r. Some (c_content r)) rows = map arg_content cs"
      "map c_heading_path rows = map (\<lambda>c. or_default (arg_headingPath c) []) cs"
      "map c_document_id rows = replicate (length cs) docId"
      "ids' = (ids @ [chunkId]) @ map c_id rows"
      "documents db' = documents db2" "embeddings db' = embeddings db2"
    by blast
  let ?row = "\<lparr>c_id = chunkId, c_document_id = docId, c_content = t,
                c_chunk_index = i, c_heading_path = or_default (arg_headingPath c) []\<rparr>"
  have "[i..<i + length (c # cs)] = i # [i + 1..<i + 1 + length cs]"
    by (simp add: upt_rec)
  with rows db1 db2 t show ?case
    by (intro exI [of _ "?row # rows"]) simp
qed

lemma insertDocument_rows:
  assumes "insertDocument db doc cs = (Inr (docId, chunkIds), db')"
  shows "\<exists>rows. chunks db' = chunks db @ rows
     \<and> map c_chunk_index rows = [0..<length cs]
     \<and> map (\<lambda>r. Some (c_content r)) rows = map arg_content cs
     \<and> map c_heading_path rows = map (\<lambda>c. or_default (arg_headingPath c) []) cs
     \<and> map c_document_id rows = replicate (length cs) docId
     \<and> chunkIds = map c_id rows
     \<and> docId \<notin> set (map d_id (documents db))
     \<and> embeddings db' = embeddings db"
proof -
  from assms obtain db1 where
    a: "insertDoc_run db (doc_title doc) (doc_library doc) (or_default (doc_version doc) ''latest'')
          (or_null (doc_filePath doc)) = Inr (db1, docId)"
    and r: "insertChunks db1 docId 0 cs [] = (Inr chunkIds, db')"
    by (auto simp: insertDocument_def split: sum.splits prod.splits)
  from a have db1: "chunks db1 = chunks db" "embeddings db1 = embeddings db"
    and fresh: "docId \<notin> set (map d_id (documents db))"
    using autoincrement_fresh [of "seq_documents db" "map d_id (documents db)"]
    by (auto simp: insertDoc_run_def Let_def split: option.splits)
  from insertChunks_rows [OF r] db1 fresh show ?thesis
    by auto
qed

lemma insertDocument_document_rows:
  assumes "referential db" and "insertDocument db doc cs = (Inr (docId, chunkIds), db')"
  shows "\<exists>rows. filter (\<lambda>r. c_document_id r = docId) (chunks db') = rows
     \<and> map c_chunk_index rows = [0..<length cs]
     \<and> map (\<lambda>r. Some (c_content r)) rows = map arg_content cs
     \<and> chunkIds = map c_id rows"
proof -
  from insertDocument_rows [OF assms(2)] obtain rows where
    rows: "chunks db' = chunks db @ rows" "map c_chunk_index rows = [0..<length cs]"
      "map (\<lambda>r. Some (c_content r)) rows = map arg_content cs"
      "map c_document_id rows = replicate (length cs) docId" "chunkIds = map c_id rows"
    and fresh: "docId \<notin> set (map d_id (documents db))"
    by blast
  from assms(1) fresh have "filter (\<lambda>r. c_document_id r = docId) (chunks db) = []"
    by (auto simp: referential_def list_all_iff filter_empty_conv)
  moreover from rows(4) have "\<forall>r\<in>set rows. c_document_id r = docId"
    by (metis in_set_replicate list.set_map imageI)
  then have "filter (\<lambda>r. c_document_id r = docId) rows = rows"
    by simp
  ultimately show ?thesis using rows by simp
qed

lemma referential_empty: "referential empty_database"
  by (simp add: referential_def empty_database_def)

lemma insertDoc_run_referential:
  "referential db \<Longrightarrow> insertDoc_run db t l v f = Inr (db1, i) \<Longrightarrow> referential db1"
  by (auto simp: insertDoc_run_def referential_def Let_def list_all_iff split: option.splits)

lemma insertChunk_run_referential:
  "referential db \<Longrightarrow> insertChunk_run db d c i h = Inr (db1, k) \<Longrightarrow> referential db1"
  by (auto simp: insertChunk_run_def referential_def Let_def list_all_iff split: option.splits if_splits)

lemma insertFts_run_referential:
  "referential db \<Longrightarrow> insertFts_run db k c h = Inr db1 \<Longrightarrow> referential db1"
  by (auto simp: insertFts_run_def referential_def split: if_splits)

lemma insertChunks_referential:
  "referential db \<Longrightarrow> referential (snd (insertChunks db d i cs ids))"
proof (induction cs arbitrary: db i ids)
  case Nil
  then show ?case by simp
next
  case (Cons c cs)
  show ?case
  proof (cases "insertChunk_run db d (arg_content c) i (or_default (arg_headingPath c) [])")
    case (Inl e)
    with Cons.prems show ?thesis by simp
  next
    case (Inr r)
    obtain db1 k where r: "r = (db1, k)" by (cases r)
    from insertChunk_run_referential [OF Cons.prems Inr [unfolded r]] have r1: "referential db1" .
    show ?thesis
    proof (cases "insertFts_run db1 k (arg_content c) (or_default (arg_headingPath c) [])")
      case (Inl e)
      with Inr r r1 show ?thesis by simp
    next
      case (Inr db2)
      from insertFts_run_referential [OF r1 Inr] have "referential db2" .
      from Cons.IH [OF this] Inr \<open>insertChunk_run db d (arg_content c) i _ = Inr r\<close> r
      show ?thesis by simp
    qed
  qed
qed

lemma insertDocument_referential:
  "referential db \<Longrightarrow> referential (snd (insertDocument db doc cs))"
proof -
  assume r: "referential db"
  show ?thesis
  proof (cases "insertDoc_run db (doc_title doc) (doc_library doc)
                  (or_default (doc_version doc) ''latest'') (or_null (doc_filePath doc))")
    case (Inl e)
    with r show ?thesis by (simp add: insertDocument_def)
  next
    case (Inr p)
    obtain db1 docId where p: "p = (db1, docId)" by (cases p)
    from insertDoc_run_referential [OF r Inr [unfolded p]] have "referential db1" .
    from insertChunks_referential [OF this, of docId 0 cs "[]"] Inr p show ?thesis
      by (cases "insertChunks db1 docId 0 cs []") (auto simp: insertDocument_def split: sum.splits)
  qed
qed

lemma insertEmbedding_run_referential:
  "referential db \<Longrightarrow> insertEmbedding_run db k v = Inr db1 \<Longrightarrow> referential db1"
  by (auto simp: insertEmbedding_run_def referential_def Let_def list_all_iff split: option.splits if_splits)

lemma insertMany_referential:
  "referential db \<Longrightarrow> insertMany db ces = Inr db1 \<Longrightarrow> referential db1"
proof (induction ces arbitrary: db)
  case Nil
  then show ?case by simp
next
  case (Cons ce ces)
  then show ?case
    by (cases ce) (auto split: sum.splits dest: insertEmbedding_run_referential)
qed

lemma insertEmbeddings_referential:
  "referential db \<Longrightarrow> referential (snd (insertEmbeddings db ces))"
  by (auto simp: insertEmbeddings_def split: sum.splits dest: insertMany_referential)

lemma deleteLibrary_referential:
  assumes "referential db"
  shows "referential (snd (deleteLibrary db l v))"
proof -
  let ?ids = "map d_id (filter (in_library l v) (documents db))"
  let ?cids = "map c_id (filter (\<lambda>c. c_document_id c \<in> set ?ids) (chunks db))"
  have c: "c_document_id c \<in> set (map d_id (filter (\<lambda>d. \<not> in_library l v d) (documents db)))"
    if "c \<in> set (chunks db)" and "c_document_id c \<notin> set ?ids" for c
  proof -
    from assms that(1) obtain d where "d \<in> set (documents db)" "d_id d = c_document_id c"
      by (auto simp: referential_def list_all_iff)
    with that(2) show ?thesis by force
  qed
  have e: "e_chunk_id e \<in> set (map c_id (filter (\<lambda>c. c_document_id c \<notin> set ?ids) (chunks db)))"
    if "e \<in> set (embeddings db)" and "e_chunk_id e \<notin> set ?cids" for e
  proof -
    from assms that(1) obtain c where "c \<in> set (chunks db)" "c_id c = e_chunk_id e"
      by (auto simp: referential_def list_all_iff)
    with that(2) show ?thesis by force
  qed
  show ?thesis
    using c e by (simp add: deleteLibrary_def referential_def Let_def list_all_iff)
qed

text \<open>
  C6. The chunks that \<open>splitText\<close> emits carry the indices \<open>0..N-1\<close> in the order of
  emission; a text that is not blank gives at least one chunk; and when \<open>insertDocument\<close>
  succeeds on them (in a database whose foreign keys hold), the rows of \<open>chunks\<close> of the
  new document, in the order of their keys, have as \<open>chunk_index\<close> the indices of the
  emitted chunks, with their contents, and theirs are the keys returned.
\<close>

theorem chunk_indices_contiguous:
  "map index (splitText sp text md) = [0..<length (splitText sp text md)]
   \<and> (trim text \<noteq> [] \<longrightarrow> splitText sp text md \<noteq> [])
   \<and> (referential db
        \<and> insertDocument db doc (map as_arg (splitText sp text md)) = (Inr (docId, chunkIds), db')
      \<longrightarrow> map c_chunk_index (filter (\<lambda>r. c_document_id r = docId) (chunks db'))
             = map index (splitText sp text md)
        \<and> map c_content (filter (\<lambda>r. c_document_id r = docId) (chunks db'))
             = map content (splitText sp text md)
        \<and> map c_id (filter (\<lambda>r. c_document_id r = docId) (chunks db')) = chunkIds)"
proof -
  let ?cs = "splitText sp text md"
  have storage: "map c_chunk_index (filter (\<lambda>r. c_document_id r = docId) (chunks db')) = map index ?cs
        \<and> map c_content (filter (\<lambda>r. c_document_id r = docId) (chunks db')) = map content ?cs
        \<and> map c_id (filter (\<lambda>r. c_document_id r = docId) (chunks db')) = chunkIds"
    if r: "referential db"
      and i: "insertDocument db doc (map as_arg ?cs) = (Inr (docId, chunkIds), db')"
  proof -
    from insertDocument_document_rows [OF r i] obtain rows where
      rows: "filter (\<lambda>r. c_document_id r = docId) (chunks db') = rows"
        "map c_chunk_index rows = [0..<length (map as_arg ?cs)]"
        "map (\<lambda>r. Some (c_content r)) rows = map arg_content (map as_arg ?cs)"
        "chunkIds = map c_id rows"
      by blast
    from rows(3) have "map (Some \<circ> c_content) rows = map (Some \<circ> content) ?cs"
      by (simp add: as_arg_def comp_def)
    then have "map Some (map c_content rows) = map Some (map content ?cs)"
      by simp
    then have "map c_content rows = map content ?cs"
      by (simp only: inj_map_eq_map [OF inj_Some])
    with rows show ?thesis
      by (simp add: splitText_indices)
  qed
  show ?thesis
    using splitText_indices splitText_nonempty storage by blast
qed

theorem chunk_indices_contiguous_witness:
  "trim guide_text \<noteq> []
   \<and> referential empty_database
   \<and> map index (splitText service_splitter guide_text guide_metadata) = [0, 1]
   \<and> fst (insertDocument empty_database (sample_document ''Guide'' ''docs'')
             (map as_arg (splitText service_splitter guide_text guide_metadata))) = Inr (1, [1, 2])
   \<and> map c_chunk_index
        (filter (\<lambda>r. c_document_id r = 1)
           (chunks (snd (insertDocument empty_database (sample_document ''Guide'' ''docs'')
                          (map as_arg (splitText service_splitter guide_text guide_metadata))))))
      = map index (splitText service_splitter guide_text guide_metadata)"
proof -
  have t: "trim guide_text \<noteq> []"
    by code_simp
  have n: "length (splitText service_splitter guide_text guide_metadata) = 2"
    by code_simp
  have f: "fst (insertDocument empty_database (sample_document ''Guide'' ''docs'')
             (map as_arg (splitText service_splitter guide_text guide_metadata))) = Inr (1, [1, 2])"
    by code_simp
  have i: "insertDocument empty_database (sample_document ''Guide'' ''docs'')
             (map as_arg (splitText service_splitter guide_text guide_metadata))
           = (Inr (1, [1, 2]),
              snd (insertDocument empty_database (sample_document ''Guide'' ''docs'')
                     (map as_arg (splitText service_splitter guide_text guide_metadata))))"
    by (rule prod_eqI) (simp_all only: f fst_conv snd_conv)
  have u: "[0..<2] = [0, 1::nat]"
    by code_simp
  note th = chunk_indices_contiguous
            [of service_splitter guide_text guide_metadata empty_database
                "sample_document ''Guide'' ''docs''" 1 "[1, 2]"
                "snd (insertDocument empty_database (sample_document ''Guide'' ''docs'')
                       (map as_arg (splitText service_splitter guide_text guide_metadata)))"]
  from th have a: "map index (splitText service_splitter guide_text guide_metadata)
                   = [0..<length (splitText service_splitter guide_text guide_metadata)]"
    by (rule conjunct1)
  from th i referential_empty have b: "map c_chunk_index
        (filter (\<lambda>r. c_document_id r = 1)
           (chunks (snd (insertDocument empty_database (sample_document ''Guide'' ''docs'')
                          (map as_arg (splitText service_splitter guide_text guide_metadata))))))
      = map index (splitText service_splitter guide_text guide_metadata)"
    by blast
  from a n u have c: "map index (splitText service_splitter guide_text guide_metadata) = [0, 1]"
    by (simp only:)
  from t referential_empty c f b show ?thesis
    by (intro conjI)
qed

lemma insertChunks_documents:
  "documents (snd (insertChunks db d i cs ids)) = documents db"
proof (induction cs arbitrary: db i ids)
  case Nil
  show ?case by simp
next
  case (Cons c cs)
  show ?case
  proof (cases "insertChunk_run db d (arg_content c) i (or_default (arg_headingPath c) [])")
    case (Inl e)
    then show ?thesis by simp
  next
    case (Inr r)
    obtain db1 k where r: "r = (db1, k)" by (cases r)
    from Inr r have d1: "documents db1 = documents db"
      by (auto simp: insertChunk_run_def Let_def split: option.splits if_splits)
    show ?thesis
    proof (cases "insertFts_run db1 k (arg_content c) (or_default (arg_headingPath c) [])")
      case (Inl e)
      with Inr r d1 show ?thesis by simp
    next
      case (Inr db2)
      then have "documents db2 = documents db1"
        by (auto simp: insertFts_run_def split: if_splits)
      with Cons.IH [of db2] Inr \<open>insertChunk_run db d (arg_content c) i _ = Inr r\<close> r d1
      show ?thesis by simp
    qed
  qed
qed

text \<open>
  Whenever \<open>insertDocument\<close> throws after the document row is written (the title and
  the library are not null), the document row is in the database it leaves.
\<close>

lemma insertDocument_failure_keeps_document:
  assumes "insertDocument db doc cs = (Inl e, db')"
    and "doc_title doc = Some t" and "doc_library doc = Some l"
  shows "length (documents db') = Suc (length (documents db))"
proof -
  obtain db1 docId where a: "insertDoc_run db (doc_title doc) (doc_library doc)
      (or_default (doc_version doc) ''latest'') (or_null (doc_filePath doc)) = Inr (db1, docId)"
    and d1: "length (documents db1) = Suc (length (documents db))"
    using assms(2,3) by (simp add: insertDoc_run_def Let_def)
  from assms(1) a have "db' = snd (insertChunks db1 docId 0 cs [])"
    by (auto simp: insertDocument_def split: prod.splits sum.splits)
  with d1 show ?thesis
    by (simp add: insertChunks_documents)
qed

text \<open>
  C1. \<open>insertDocument\<close> is not atomic. On a document with two chunks of which the second
  has no content, the second \<open>INSERT INTO chunks\<close> throws (\<open>content\<close> is \<open>NOT NULL\<close>),
  and the database keeps the document row, the row of the first chunk and its
  full-text entry.
\<close>

theorem insertDocument_leaves_partial_document:
  "insertDocument empty_database (sample_document ''Guide'' ''docs'') [text_chunk ''alpha'', null_chunk] =
     (Inl (SqliteError ''NOT NULL constraint failed: chunks.content''),
      \<lparr>documents = [\<lparr>d_id = 1, d_title = ''Guide'', d_library = ''docs'', d_version = ''latest'',
                      d_file_path = None\<rparr>],
       chunks = [\<lparr>c_id = 1, c_document_id = 1, c_content = ''alpha'', c_chunk_index = 0,
                   c_heading_path = []\<rparr>],
       chunks_fts = [\<lparr>f_rowid = 1, f_content = Some ''alpha'', f_heading_path = []\<rparr>],
       embeddings = [], seq_documents = 1, seq_chunks = 1, seq_embeddings = 0\<rparr>)"
  by code_simp

text \<open>
  A successful \<open>INSERT OR REPLACE INTO embeddings\<close> appends a row and replaces none: the
  key of the new row is fresh.
\<close>

lemma insertEmbedding_run_appends:
  assumes "insertEmbedding_run db k v = Inr db'"
  shows "\<exists>i w. v = Some w \<and> embeddings db' = embeddings db @ [\<lparr>e_id = i, e_chunk_id = k, e_embedding = w\<rparr>]"
proof -
  let ?i = "autoincrement (seq_embeddings db) (map e_id (embeddings db))"
  have "e_id r \<noteq> ?i" if "r \<in> set (embeddings db)" for r
    using autoincrement_fresh [of "seq_embeddings db" "map e_id (embeddings db)"] that
    by force
  then have "filter (\<lambda>r. e_id r \<noteq> ?i) (embeddings db) = embeddings db"
    by (simp add: filter_id_conv)
  with assms show ?thesis
    by (auto simp: insertEmbedding_run_def Let_def split: option.splits if_splits)
qed

text \<open>
  C2. \<open>insertEmbeddings\<close> does not replace. After two calls with a vector for chunk 1,
  both of which succeed, the table holds two rows for chunk 1, the first call's vector
  among them.
\<close>

theorem insertEmbeddings_twice_keeps_both_rows:
  "fst (insertEmbeddings one_chunk_db [(1, Some [Fin 1, Fin 0])]) = Inr ()
   \<and> fst (insertEmbeddings (snd (insertEmbeddings one_chunk_db [(1, Some [Fin 1, Fin 0])]))
            [(1, Some [Fin 0, Fin 1])]) = Inr ()
   \<and> embeddings (snd (insertEmbeddings (snd (insertEmbeddings one_chunk_db [(1, Some [Fin 1, Fin 0])]))
                         [(1, Some [Fin 0, Fin 1])]))
      = [\<lparr>e_id = 1, e_chunk_id = 1, e_embedding = [Fin 1, Fin 0]\<rparr>,
         \<lparr>e_id = 2, e_chunk_id = 1, e_embedding = [Fin 0, Fin 1]\<rparr>]"
  by code_simp

lemma searchChunks_rows:
  assumes "searchChunks eng db q k = Inr rows" and "r \<in> set rows"
  shows "\<exists>f\<in>set (chunks_fts db). \<exists>c\<in>set (chunks db). \<exists>d\<in>set (documents db).
           f_rowid f = c_id c \<and> c_document_id c = d_id d
           \<and> r = select_row c d (fts_rank eng q (chunks_fts db) f)"
proof -
  from assms(1) obtain m where m: "fts_match eng q = Some m"
    and rows: "rows = take k (map snd (sort_key fst (matching_rows eng db q m)))"
    by (auto simp: searchChunks_def split: option.splits)
  from assms(2) rows have "r \<in> set (map snd (sort_key fst (matching_rows eng db q m)))"
    by (auto dest: in_set_takeD)
  then have "r \<in> snd ` set (matching_rows eng db q m)"
    by simp
  then show ?thesis
    by (auto simp: matching_rows_def) blast
qed

text \<open>
  C3. \<open>deleteLibrary\<close> does not remove the full-text entries. \<open>insertDocument\<close>
  mirrors every chunk into \<open>chunks_fts\<close> by hand, and the schema cascades the delete
  to \<open>chunks\<close> and \<open>embeddings\<close>; the delete misses the mirror. After the only
  document of library \<open>docs\<close> and its chunk are removed, the full-text entry of that
  chunk, with its text, is still in \<open>chunks_fts\<close>.
\<close>

theorem deleteLibrary_leaves_fts_entry:
  "fst (deleteLibrary one_chunk_db ''docs'' None) = 1
   \<and> documents (snd (deleteLibrary one_chunk_db ''docs'' None)) = []
   \<and> chunks (snd (deleteLibrary one_chunk_db ''docs'' None)) = []
   \<and> chunks_fts (snd (deleteLibrary one_chunk_db ''docs'' None)) =
        [\<lparr>f_rowid = 1, f_content = Some ''alpha'', f_heading_path = []\<rparr>]"
  by code_simp

text \<open>
  What \<open>deleteLibrary\<close> does on every database: it returns the number of documents of
  the library (and version, when given) and removes exactly them, exactly the chunks of
  those documents and exactly the embeddings of those chunks, and it leaves
  \<open>chunks_fts\<close> as it is. The rows that \<open>searchChunks\<close> returns afterwards are of
  chunks and documents that remain.
\<close>

lemma deleteLibrary_cascade:
  assumes "deleteLibrary db lib ver = (n, db')"
  shows "n = length (filter (in_library lib ver) (documents db))
     \<and> documents db' = filter (\<lambda>d. \<not> in_library lib ver d) (documents db)
     \<and> chunks db' =
         filter (\<lambda>c. \<not> (\<exists>d\<in>set (documents db). in_library lib ver d \<and> c_document_id c = d_id d))
           (chunks db)
     \<and> embeddings db' =
         filter (\<lambda>e. \<not> (\<exists>c\<in>set (chunks db). \<exists>d\<in>set (documents db).
                          in_library lib ver d \<and> c_document_id c = d_id d \<and> e_chunk_id e = c_id c))
           (embeddings db)
     \<and> chunks_fts db' = chunks_fts db
     \<and> (\<forall>rows r. searchChunks eng db' q k = Inr rows \<and> r \<in> set rows \<longrightarrow>
           (\<exists>c\<in>set (chunks db'). \<exists>d\<in>set (documents db').
              \<not> in_library lib ver d \<and> c_document_id c = d_id d
              \<and> r ''chunk_id'' = Some (SInt (int (c_id c)))
              \<and> r ''library'' = Some (SText (d_library d))
              \<and> r ''version'' = Some (SText (d_version d))))"
proof -
  let ?ids = "map d_id (filter (in_library lib ver) (documents db))"
  let ?cids = "map c_id (filter (\<lambda>c. c_document_id c \<in> set ?ids) (chunks db))"
  from assms have n: "n = length (filter (in_library lib ver) (documents db))"
    and d: "documents db' = filter (\<lambda>d. \<not> in_library lib ver d) (documents db)"
    and c: "chunks db' = filter (\<lambda>c. c_document_id c \<notin> set ?ids) (chunks db)"
    and e: "embeddings db' = filter (\<lambda>e. e_chunk_id e \<notin> set ?cids) (embeddings db)"
    and f: "chunks_fts db' = chunks_fts db"
    by (auto simp: deleteLibrary_def Let_def)
  have c': "(\<lambda>c. c_document_id c \<notin> set ?ids)
            = (\<lambda>c. \<not> (\<exists>d\<in>set (documents db). in_library lib ver d \<and> c_document_id c = d_id d))"
    by (rule ext) auto
  have e': "(\<lambda>e. e_chunk_id e \<notin> set ?cids)
            = (\<lambda>e. \<not> (\<exists>c\<in>set (chunks db). \<exists>d\<in>set (documents db).
                          in_library lib ver d \<and> c_document_id c = d_id d \<and> e_chunk_id e = c_id c))"
    by (rule ext) auto
  have s: "\<exists>c\<in>set (chunks db'). \<exists>d\<in>set (documents db').
              \<not> in_library lib ver d \<and> c_document_id c = d_id d
              \<and> r ''chunk_id'' = Some (SInt (int (c_id c)))
              \<and> r ''library'' = Some (SText (d_library d))
              \<and> r ''version'' = Some (SText (d_version d))"
    if "searchChunks eng db' q k = Inr rows" and "r \<in> set rows" for rows r
  proof -
    from searchChunks_rows [OF that] obtain fr cr dr where
      m: "cr \<in> set (chunks db')" "dr \<in> set (documents db')" "c_document_id cr = d_id dr"
        "r = select_row cr dr (fts_rank eng q (chunks_fts db') fr)"
      by blast
    from m(2) d have "\<not> in_library lib ver dr" by simp
    with m show ?thesis
      by (intro bexI [of _ cr] bexI [of _ dr]) (simp_all add: select_row_def)
  qed
  from n d c e f s show ?thesis
    unfolding c' e' by blast
qed

lemma deleteLibrary_cascade_example:
  "deleteLibrary one_chunk_db ''docs'' None = (1, snd (deleteLibrary one_chunk_db ''docs'' None))
   \<and> documents (snd (deleteLibrary one_chunk_db ''docs'' None)) = []
   \<and> chunks (snd (deleteLibrary one_chunk_db ''docs'' None)) = []
   \<and> searchChunks substring_engine (snd (deleteLibrary one_chunk_db ''docs'' None)) ''alpha'' 10 = Inr []"
proof -
  have f: "fst (deleteLibrary one_chunk_db ''docs'' None) = 1"
    by code_simp
  have h: "deleteLibrary one_chunk_db ''docs'' None = (1, snd (deleteLibrary one_chunk_db ''docs'' None))"
    by (rule prod_eqI) (simp_all only: f fst_conv snd_conv)
  have d: "filter (\<lambda>d. \<not> in_library ''docs'' None d) (documents one_chunk_db) = []"
    by code_simp
  have c: "filter (\<lambda>c. \<not> (\<exists>d\<in>set (documents one_chunk_db).
                  in_library ''docs'' None d \<and> c_document_id c = d_id d)) (chunks one_chunk_db) = []"
    by code_simp
  note th = deleteLibrary_cascade [OF h, of substring_engine "''alpha''" 10]
  from th d have d': "documents (snd (deleteLibrary one_chunk_db ''docs'' None)) = []"
    by simp
  from th c have c': "chunks (snd (deleteLibrary one_chunk_db ''docs'' None)) = []"
    by simp
  obtain rows where rows: "searchChunks substring_engine
      (snd (deleteLibrary one_chunk_db ''docs'' None)) ''alpha'' 10 = Inr rows"
    by (simp add: searchChunks_def substring_engine_def)
  from th c' rows have "r \<notin> set rows" for r
    by auto
  then have "rows = []"
    by (cases rows) auto
  with rows have "searchChunks substring_engine (snd (deleteLibrary one_chunk_db ''docs'' None)) ''alpha'' 10
     = Inr []"
    by simp
  with h d' c' show ?thesis by (intro conjI)
qed

section \<open>Properties of the indexing service\<close>

lemma document_store_simps [simp]:
  "documents (document_store db) = documents db"
  "chunks (document_store db) = chunks db"
  "chunks_fts (document_store db) = chunks_fts db"
  "seq_documents (document_store db) = seq_documents db"
  "seq_chunks (document_store db) = seq_chunks db"
  "document_store (document_store db) = document_store db"
  by (simp_all add: document_store_def)

lemma insertDoc_run_store:
  "insertDoc_run (document_store db) t l v f =
     map_sum id (map_prod document_store id) (insertDoc_run db t l v f)"
  by (simp add: insertDoc_run_def Let_def document_store_def split: option.splits)

lemma insertChunk_run_store:
  "insertChunk_run (document_store db) d c i h =
     map_sum id (map_prod document_store id) (insertChunk_run db d c i h)"
  by (simp add: insertChunk_run_def Let_def document_store_def split: option.splits)

lemma insertFts_run_store:
  "insertFts_run (document_store db) k c h = map_sum id document_store (insertFts_run db k c h)"
  by (simp add: insertFts_run_def document_store_def)

lemma insertChunks_store:
  "insertChunks (document_store db) d i cs ids = map_prod id document_store (insertChunks db d i cs ids)"
proof (induction cs arbitrary: db i ids)
  case Nil
  show ?case by simp
next
  case (Cons c cs)
  show ?case
  proof (cases "insertChunk_run db d (arg_content c) i (or_default (arg_headingPath c) [])")
    case (Inl e)
    then show ?thesis by (simp add: insertChunk_run_store)
  next
    case (Inr r)
    obtain db1 k where r: "r = (db1, k)" by (cases r)
    show ?thesis
    proof (cases "insertFts_run db1 k (arg_content c) (or_default (arg_headingPath c) [])")
      case (Inl e)
      with Inr r show ?thesis by (simp add: insertChunk_run_store insertFts_run_store)
    next
      case (Inr db2)
      with \<open>insertChunk_run db d (arg_content c) i _ = Inr r\<close> r Cons.IH [of db2]
      show ?thesis by (simp add: insertChunk_run_store insertFts_run_store)
    qed
  qed
qed

lemma insertDocument_store:
  "insertDocument (document_store db) doc cs = map_prod id document_store (insertDocument db doc cs)"
proof (cases "insertDoc_run db (doc_title doc) (doc_library doc)
                (or_default (doc_version doc) ''latest'') (or_null (doc_filePath doc))")
  case (Inl e)
  then show ?thesis by (simp add: insertDocument_def insertDoc_run_store)
next
  case (Inr p)
  obtain db1 docId where p: "p = (db1, docId)" by (cases p)
  obtain r db2 where c: "insertChunks db1 docId 0 cs [] = (r, db2)"
    by (cases "insertChunks db1 docId 0 cs []")
  with Inr p show ?thesis
    by (cases r) (simp_all add: insertDocument_def insertDoc_run_store insertChunks_store)
qed

lemma insertEmbedding_run_store:
  "insertEmbedding_run db k v = Inr db1 \<Longrightarrow> document_store db1 = document_store db"
  by (auto simp: insertEmbedding_run_def Let_def document_store_def split: option.splits if_splits)

lemma insertMany_store:
  "insertMany db ces = Inr db1 \<Longrightarrow> document_store db1 = document_store db"
proof (induction ces arbitrary: db)
  case Nil
  then show ?case by simp
next
  case (Cons ce ces)
  obtain k v where ce: "ce = (k, v)" by (cases ce)
  from Cons.prems ce obtain db2 where a: "insertEmbedding_run db k v = Inr db2"
    and b: "insertMany db2 ces = Inr db1"
    by (auto split: sum.splits)
  from Cons.IH [OF b] insertEmbedding_run_store [OF a] show ?case by simp
qed

lemma insertEmbeddings_store:
  "document_store (snd (insertEmbeddings db ces)) = document_store db"
  by (cases "insertMany db ces") (simp_all add: insertEmbeddings_def insertMany_store)

lemma embed_chunks_store:
  "embed_chunks svc db cs ids = Inr db2 \<Longrightarrow> document_store db2 = document_store db"
proof (cases svc)
  case None
  then show "embed_chunks svc db cs ids = Inr db2 \<Longrightarrow> ?thesis"
    by (simp add: embed_chunks_def)
next
  case (Some generate)
  assume e: "embed_chunks svc db cs ids = Inr db2"
  show ?thesis
  proof (cases "generate (map content cs)")
    case (Inl thrown)
    with e Some show ?thesis
      by (cases thrown) (simp_all add: embed_chunks_def read_message_def)
  next
    case (Inr vectors)
    with e Some show ?thesis
      by (auto simp: embed_chunks_def insertEmbeddings_store)
  qed
qed

lemma embed_chunks_never_nullish:
  "never_nullish svc \<Longrightarrow> \<exists>db2. embed_chunks svc db cs ids = Inr db2"
proof (cases svc)
  case None
  then show ?thesis by (simp add: embed_chunks_def)
next
  case (Some generate)
  assume n: "never_nullish svc"
  show ?thesis
  proof (cases "generate (map content cs)")
    case (Inl thrown)
    with n Some have "thrown \<noteq> RejectUndefined" "thrown \<noteq> RejectNull"
      by (auto simp: never_nullish_def)
    with Inl Some show ?thesis
      by (cases thrown) (simp_all add: embed_chunks_def read_message_def)
  next
    case (Inr vectors)
    with Some show ?thesis by (simp add: embed_chunks_def)
  qed
qed

lemma embed_chunks_no_service:
  "embed_chunks None db cs ids = Inr db"
  by (simp add: embed_chunks_def)

text \<open>
  A run of the loop that succeeds is, on the document tables, the run without a service.
\<close>

lemma index_documents_success_store:
  "index_documents svc fp opts db docs t res = (Inr x, db') \<Longrightarrow>
   index_documents None fp opts (document_store db) docs t res = (Inr x, document_store db')"
proof (induction docs arbitrary: db t res)
  case Nil
  then show ?case by simp
next
  case (Cons doc docs)
  let ?cs = "splitText service_splitter (doc_content doc)
               \<lparr>md_source = fp, md_library = opt_library opts,
                md_version = Some (case opt_version opts of None \<Rightarrow> ''latest'' | Some v \<Rightarrow> v)\<rparr>"
  from Cons.prems obtain docId chunkIds db1 db2 where
    i: "insertDocument db doc (map as_arg ?cs) = (Inr (docId, chunkIds), db1)"
    and e: "embed_chunks svc db1 ?cs chunkIds = Inr db2"
    and r: "index_documents svc fp opts db2 docs (t + length ?cs)
              (res @ [\<lparr>documentId = docId, res_title = doc_title doc, res_chunks = length ?cs\<rparr>])
            = (Inr x, db')"
    by (auto simp: Let_def split: prod.splits sum.splits)
  from i have i': "insertDocument (document_store db) doc (map as_arg ?cs)
                   = (Inr (docId, chunkIds), document_store db1)"
    by (simp add: insertDocument_store)
  from embed_chunks_store [OF e] have s: "document_store db2 = document_store db1" .
  from Cons.IH [OF r] s i' show ?case
    by (simp add: Let_def embed_chunks_no_service)
qed

text \<open>
  With a service that never rejects with \<open>undefined\<close> or \<open>null\<close>, every run of the
  loop is, on the document tables, the run without a service.
\<close>

lemma index_documents_store:
  "never_nullish svc \<Longrightarrow>
   map_prod id document_store (index_documents svc fp opts db docs t res)
     = index_documents None fp opts (document_store db) docs t res"
proof (induction docs arbitrary: db t res)
  case Nil
  show ?case by simp
next
  case (Cons doc docs)
  let ?cs = "splitText service_splitter (doc_content doc)
               \<lparr>md_source = fp, md_library = opt_library opts,
                md_version = Some (case opt_version opts of None \<Rightarrow> ''latest'' | Some v \<Rightarrow> v)\<rparr>"
  obtain r db1 where i: "insertDocument db doc (map as_arg ?cs) = (r, db1)"
    by (cases "insertDocument db doc (map as_arg ?cs)")
  then have i': "insertDocument (document_store db) doc (map as_arg ?cs) = (r, document_store db1)"
    by (simp add: insertDocument_store)
  show ?case
  proof (cases r)
    case (Inl e)
    with i i' show ?thesis by (simp add: Let_def)
  next
    case (Inr p)
    obtain docId chunkIds where p: "p = (docId, chunkIds)" by (cases p)
    from embed_chunks_never_nullish [OF Cons.prems] obtain db2 where
      e: "embed_chunks svc db1 ?cs chunkIds = Inr db2"
      by blast
    from embed_chunks_store [OF e] have s: "document_store db2 = document_store db1" .
    from Cons.IH [OF Cons.prems, of db2] i i' Inr p e s show ?thesis
      by (simp add: Let_def embed_chunks_no_service)
  qed
qed

lemma index_documents_counts:
  "index_documents svc fp opts db docs t res = (Inr (t', res'), db') \<Longrightarrow>
   length res' = length res + length docs
   \<and> t' + sum_list (map res_chunks res) = t + sum_list (map res_chunks res')"
proof (induction docs arbitrary: db t res)
  case Nil
  then show ?case by simp
next
  case (Cons doc docs)
  let ?cs = "splitText service_splitter (doc_content doc)
               \<lparr>md_source = fp, md_library = opt_library opts,
                md_version = Some (case opt_version opts of None \<Rightarrow> ''latest'' | Some v \<Rightarrow> v)\<rparr>"
  from Cons.prems obtain docId chunkIds db1 db2 where
    i: "insertDocument db doc (map as_arg ?cs) = (Inr (docId, chunkIds), db1)"
    and r: "index_documents svc fp opts db2 docs (t + length ?cs)
              (res @ [\<lparr>documentId = docId, res_title = doc_title doc, res_chunks = length ?cs\<rparr>])
            = (Inr (t', res'), db')"
    by (auto simp: Let_def split: prod.splits sum.splits)
  from Cons.IH [OF r] show ?case by simp
qed

text \<open>
  The extent of the handler. When a file is indexed with success with one service, then
  with any service that never rejects with \<open>undefined\<close> or \<open>null\<close> (one that throws
  an error on every call, one that returns too few vectors so that \<open>insertEmbeddings\<close>
  throws, or none at all) the outcome is the same success, with the number of documents
  and the sum of their chunk counts, and the tables \<open>documents\<close>, \<open>chunks\<close> and
  \<open>chunks_fts\<close> are the same.
\<close>

lemma indexFile_embeddings_best_effort:
  assumes "indexFile svc0 files db filePath opts = (IndexSuccess n t rs, db0)"
    and "never_nullish svc"
  shows "\<exists>db'. indexFile svc files db filePath opts = (IndexSuccess n t rs, db')
           \<and> documents db' = documents db0
           \<and> chunks db' = chunks db0
           \<and> chunks_fts db' = chunks_fts db0
           \<and> n = length rs
           \<and> t = sum_list (map res_chunks rs)"
proof -
  from assms(1) obtain body where f: "files filePath = Some body"
    by (auto simp: indexFile_def split: option.splits)
  let ?docs = "logical_documents filePath body opts"
  from assms(1) f have
    r0: "index_documents svc0 filePath opts db ?docs 0 [] = (Inr (t, rs), db0)"
    and n: "n = length ?docs"
    by (auto simp: indexFile_def Let_def split: prod.splits sum.splits)
  from index_documents_counts [OF r0] n have c: "n = length rs" "t = sum_list (map res_chunks rs)"
    by simp_all
  obtain r db' where r: "index_documents svc filePath opts db ?docs 0 [] = (r, db')"
    by (cases "index_documents svc filePath opts db ?docs 0 []")
  from index_documents_store [OF assms(2), of filePath opts db ?docs 0 "[]"] r
  have "index_documents None filePath opts (document_store db) ?docs 0 [] = (r, document_store db')"
    by simp
  with index_documents_success_store [OF r0]
  have "r = Inr (t, rs)" and s: "document_store db' = document_store db0"
    by simp_all
  with r f n have "indexFile svc files db filePath opts = (IndexSuccess n t rs, db')"
    by (simp add: indexFile_def)
  moreover from s have "documents db' = documents db0" "chunks db' = chunks db0"
    "chunks_fts db' = chunks_fts db0"
    by (metis document_store_simps(1), metis document_store_simps(2), metis document_store_simps(3))
  ultimately show ?thesis using c by blast
qed

text \<open>
  C7. Not every failure of the embeddings step is caught. The handler of the inner
  \<open>try\<close> reads \<open>error.message\<close>; when \<open>generateEmbeddings\<close> rejects with
  \<open>undefined\<close>, that read throws a \<open>TypeError\<close>, which reaches the outer \<open>catch\<close>:
  \<open>indexFile\<close> reports a failure, while the document and its two chunks are in the
  database. Without a service, the same file is indexed with success.
\<close>

theorem indexFile_fails_when_service_rejects_with_undefined:
  "fst (indexFile (Some rejecting_service) guide_files empty_database ''/docs/guide.md'' guide_options)
     = IndexFailure ''Cannot read properties of undefined (reading 'message')''
   \<and> documents (snd (indexFile (Some rejecting_service) guide_files empty_database
                       ''/docs/guide.md'' guide_options))
     = [\<lparr>d_id = 1, d_title = ''guide'', d_library = ''docs'', d_version = ''latest'',
         d_file_path = None\<rparr>]
   \<and> map c_chunk_index (chunks (snd (indexFile (Some rejecting_service) guide_files empty_database
                                      ''/docs/guide.md'' guide_options)))
     = [0, 1]
   \<and> fst (indexFile None guide_files empty_database ''/docs/guide.md'' guide_options)
     = IndexSuccess 1 2 [\<lparr>documentId = 1, res_title = Some ''guide'', res_chunks = 2\<rparr>]"
  by code_simp

text \<open>
  No result of \<open>searchDocuments\<close> has a \<open>url\<close> or a \<open>chunkType\<close>: the rows of
  \<open>searchChunks\<close> have no property \<open>url\<close> (the column is \<open>file_path\<close>) and none
  named \<open>chunk_type\<close>.
\<close>

lemma shape_result_undefined:
  "url (shape_result (select_row c d rank)) = None
   \<and> chunkType (shape_result (select_row c d rank)) = None"
  by (simp add: shape_result_def select_row_def)

lemma searchDocuments_url_undefined:
  assumes "searchDocuments svc eng db q opts = SearchSuccess rs q' n" and "r \<in> set rs"
  shows "url r = None \<and> chunkType r = None"
proof -
  let ?limit = "case so_limit opts of None \<Rightarrow> 10 | Some n \<Rightarrow> n"
  from assms(1) obtain rows where rows: "searchChunks eng db q (?limit * 2) = Inr rows"
    by (cases "searchChunks eng db q (?limit * 2)") (simp_all add: searchDocuments_def Let_def)
  let ?res = "take ?limit (if truthy (so_library opts) \<or> truthy (so_version opts)
                then filter (keep_result (so_library opts) (so_version opts)) rows else rows)"
  from assms(1) rows have "rs = map shape_result ?res"
    by (auto simp: searchDocuments_def Let_def split: option.splits sum.splits)
  with assms(2) obtain x where x: "x \<in> set ?res" and rx: "r = shape_result x"
    by auto
  from x have "x \<in> set rows"
    by (auto dest!: in_set_takeD split: if_splits)
  from searchChunks_rows [OF rows this] obtain c d rank where "x = select_row c d rank"
    by blast
  with rx shape_result_undefined show ?thesis by simp
qed

text \<open>
  C4. The results of \<open>searchDocuments\<close> lack two of the eight fields. On the file of the
  scenario, indexed and then searched for \<open>Hello\<close>, the one result has its title,
  library, version, content, heading path and score, but neither a \<open>url\<close> nor a
  \<open>chunkType\<close>.
\<close>

theorem searchDocuments_result_lacks_url_and_type:
  "searchDocuments None substring_engine
     (snd (indexFile None guide_files empty_database ''/docs/guide.md''
             \<lparr>opt_library = Some ''docs'', opt_version = None, opt_title = None,
               opt_separator = None\<rparr>))
     ''Hello'' \<lparr>so_library = None, so_version = None, so_limit = None, so_useSemanticSearch = None\<rparr>
   = SearchSuccess
       [\<lparr>title = Some (SText ''guide''), library = Some (SText ''docs''),
         version = Some (SText ''latest''), url = None,
         sr_content = Some (SText (''# Intro'' @ [nl, nl] @ ''Hello world.'')),
         sr_headingPath = Some (SText ''Intro''), chunkType = None,
         score = SReal (- 1)\<rparr>]
       ''Hello'' 1"
  by code_simp

text \<open>
  C9. The library filter is applied to the first \<open>2 * limit\<close> rows only. In a database
  of three chunks that match \<open>foo\<close>, the two best ranked in library \<open>A\<close> and the
  third in library \<open>B\<close>, a search in library \<open>B\<close> with limit 1 returns nothing,
  though one chunk of \<open>B\<close> matches.
\<close>

theorem searchDocuments_filter_misses_match:
  "\<exists>eng db q lib limit m rs n.
     searchDocuments None eng db q
       \<lparr>so_library = Some lib, so_version = None, so_limit = Some limit,
         so_useSemanticSearch = None\<rparr> = SearchSuccess rs q n
     \<and> length rs < limit
     \<and> fts_match eng q = Some m
     \<and> limit \<le> length (filter (\<lambda>r. r ''library'' = Some (SText lib))
                        (map snd (matching_rows eng db q m)))"
proof -
  let ?m = "\<lambda>r. case f_content r of None \<Rightarrow> False | Some c \<Rightarrow> str_includes c ''foo''"
  have a: "searchDocuments None substring_engine three_document_db ''foo''
             \<lparr>so_library = Some ''B'', so_version = None, so_limit = Some 1,
               so_useSemanticSearch = None\<rparr> = SearchSuccess [] ''foo'' 0"
    by code_simp
  have b: "fts_match substring_engine ''foo'' = Some ?m"
    by (simp add: substring_engine_def)
  have c: "length (filter (\<lambda>r. r ''library'' = Some (SText ''B''))
             (map snd (matching_rows substring_engine three_document_db ''foo'' ?m))) = 1"
    by code_simp
  from a b c show ?thesis
    by (intro exI [of _ substring_engine] exI [of _ three_document_db] exI [of _ "''foo''"]
          exI [of _ "''B''"] exI [of _ "1::nat"] exI [of _ ?m] exI [of _ "[]"] exI [of _ "0::nat"])
       simp
qed

end
